theory Spec2Isabelle
  imports Main "HOL-Library.List_Lexorder" "HOL-Library.Char_ord"
begin

section \<open>Data model\<close>

text \<open>
  The rows of \<^verbatim>\<open>shared/schema.ts\<close> that the stock engine reads and writes. Database
  integers and JavaScript numbers holding ids and quantities are \<open>int\<close>; a nullable
  column is an \<open>option\<close>. Serial row ids of the ledger and of the mappings, timestamps
  set by the database and free-text notes are not part of any computation below and are
  left out of the records.
\<close>

record raw_material_variation =
  rv_id :: int
  rv_materialId :: int
  rv_woocommerceId :: "int option"
  rv_name :: string
  rv_stockQuantity :: "int option"
  rv_manageStock :: bool
  rv_isActive :: bool

record raw_material =
  rm_id :: int
  rm_woocommerceId :: "int option"
  rm_name :: string
  rm_type :: string
  rm_stockQuantity :: "int option"
  rm_manageStock :: bool
  rm_isActive :: bool

text \<open>\<^verbatim>\<open>LocalRawMaterialWithVariations\<close>: the row with its optional list of variations.\<close>

record local_material = raw_material +
  variations :: "raw_material_variation list option"

record material_product_mapping =
  mp_productId :: int
  mp_variationId :: "int option"
  mp_materialProductId :: int
  mp_materialVariationId :: "int option"
  mp_quantityUsed :: int

text \<open>
  An order of the external feed. \<open>wo_date_created\<close> is the number that
  \<^verbatim>\<open>new Date(order.date_created).getTime()\<close> yields; a date string that does not parse
  is outside the model. \<open>li_variation_id\<close> is \<open>None\<close> when the field is absent.
\<close>

record line_item =
  li_product_id :: int
  li_variation_id :: "int option"
  li_quantity :: int
  li_name :: string

record wc_order =
  wo_id :: int
  wo_status :: string
  wo_date_created :: int
  wo_line_items :: "line_item list"

section \<open>JavaScript idioms\<close>

text \<open>\<^verbatim>\<open>x || 0\<close> on a nullable number.\<close>

definition or0 :: "int option \<Rightarrow> int" where
  "or0 x = (case x of None \<Rightarrow> 0 | Some n \<Rightarrow> n)"

text \<open>Truthiness of a nullable number: \<^verbatim>\<open>null\<close>, \<^verbatim>\<open>undefined\<close> and \<^verbatim>\<open>0\<close> are falsy.\<close>

definition truthy :: "int option \<Rightarrow> bool" where
  "truthy x = (case x of None \<Rightarrow> False | Some n \<Rightarrow> n \<noteq> 0)"

text \<open>\<^verbatim>\<open>x || null\<close> on a nullable number.\<close>

definition orNull :: "int option \<Rightarrow> int option" where
  "orNull x = (if truthy x then x else None)"

text \<open>\<^verbatim>\<open>new Map(pairs)\<close>: the pairs are set in order, a later pair replaces an earlier one.\<close>

definition newMap :: "('k \<times> 'v) list \<Rightarrow> ('k \<rightharpoonup> 'v)" where
  "newMap kvs = fold (\<lambda>kv m. m(fst kv \<mapsto> snd kv)) kvs Map.empty"

section \<open>ID normalizer (fulfillment-status handler)\<close>

definition materialsByLocalId :: "local_material list \<Rightarrow> (int \<rightharpoonup> local_material)" where
  "materialsByLocalId localMaterials = newMap (map (\<lambda>m. (rm_id m, m)) localMaterials)"

text \<open>The key of this map is the nullable \<^verbatim>\<open>woocommerceId\<close>; it is read with a number.\<close>

definition materialsByWooId :: "local_material list \<Rightarrow> (int option \<rightharpoonup> local_material)" where
  "materialsByWooId localMaterials = newMap (map (\<lambda>m. (rm_woocommerceId m, m)) localMaterials)"

definition findMaterial :: "local_material list \<Rightarrow> int \<Rightarrow> local_material option" where
  "findMaterial localMaterials i =
     (case materialsByLocalId localMaterials i of
        Some m \<Rightarrow> Some m
      | None \<Rightarrow> materialsByWooId localMaterials (Some i))"

definition normalizeId :: "local_material list \<Rightarrow> int \<Rightarrow> int" where
  "normalizeId localMaterials i =
     (case materialsByLocalId localMaterials i of
        Some byLocal \<Rightarrow> rm_id byLocal
      | None \<Rightarrow>
          (case materialsByWooId localMaterials (Some i) of
             Some byWoo \<Rightarrow> rm_id byWoo
           | None \<Rightarrow> i))"

definition sameVariation :: "int option \<Rightarrow> raw_material_variation \<Rightarrow> bool" where
  "sameVariation varId v = (Some (rv_id v) = varId \<or> rv_woocommerceId v = varId)"

definition normalizeVariationId :: "local_material \<Rightarrow> int option \<Rightarrow> int option" where
  "normalizeVariationId material varId =
     (if \<not> truthy varId then varId
      else case variations material of
             None \<Rightarrow> varId
           | Some vs \<Rightarrow>
               (case find (sameVariation varId) vs of
                  Some variation \<Rightarrow> Some (rv_id variation)
                | None \<Rightarrow> varId))"

section \<open>Fulfillment calculator\<close>

text \<open>
  The handler builds its keys as the strings \<^verbatim>\<open>`${materialId}-${variationId || 'null'}`\<close>.
  Two such strings are equal exactly when the material ids are equal and the variation
  parts are both \<^verbatim>\<open>null\<close> or the same number, so a key is the pair itself.
\<close>

type_synonym stock_key = "int \<times> int option"

definition seedVariation ::
  "int \<Rightarrow> raw_material_variation \<Rightarrow> (stock_key \<rightharpoonup> int) \<times> int \<Rightarrow> (stock_key \<rightharpoonup> int) \<times> int" where
  "seedVariation materialId variation acc =
     (let stock = or0 (rv_stockQuantity variation)
      in ((fst acc)((materialId, Some (rv_id variation)) \<mapsto> stock), snd acc + stock))"

definition seedMaterial :: "local_material \<Rightarrow> (stock_key \<rightharpoonup> int) \<Rightarrow> (stock_key \<rightharpoonup> int)" where
  "seedMaterial material materialsMap =
     (case variations material of
        Some vs \<Rightarrow>
          if rm_type material = ''variable'' \<and> vs \<noteq> [] then
            (let acc = fold (seedVariation (rm_id material)) vs (materialsMap, 0)
             in (fst acc)((rm_id material, None) \<mapsto> snd acc))
          else materialsMap((rm_id material, None) \<mapsto> or0 (rm_stockQuantity material))
      | None \<Rightarrow> materialsMap((rm_id material, None) \<mapsto> or0 (rm_stockQuantity material)))"

definition buildStockMap :: "local_material list \<Rightarrow> (stock_key \<rightharpoonup> int)" where
  "buildStockMap localMaterials = fold seedMaterial localMaterials Map.empty"

definition fulfillmentStatuses :: "string list" where
  "fulfillmentStatuses = [''pending'', ''order-received'', ''production'']"

definition sortedOrders :: "wc_order list \<Rightarrow> wc_order list" where
  "sortedOrders orders =
     sort_key wo_date_created (filter (\<lambda>order. wo_status order \<in> set fulfillmentStatuses) orders)"

record needed_entry =
  ne_needed :: int
  ne_materialName :: string
  ne_materialId :: int
  ne_variationId :: "int option"

text \<open>
  \<^verbatim>\<open>materialsNeeded\<close> is a Map iterated in insertion order: an association list in
  which an existing key keeps its place and its first entry, with \<^verbatim>\<open>needed\<close> added up.
\<close>

fun neededAdd ::
  "(stock_key \<times> needed_entry) list \<Rightarrow> stock_key \<Rightarrow> needed_entry \<Rightarrow> (stock_key \<times> needed_entry) list" where
  "neededAdd [] key e = [(key, e)]"
| "neededAdd ((k, existing) # rest) key e =
     (if k = key then (k, existing\<lparr>ne_needed := ne_needed existing + ne_needed e\<rparr>) # rest
      else (k, existing) # neededAdd rest key e)"

definition itemMappings :: "material_product_mapping list \<Rightarrow> line_item \<Rightarrow> material_product_mapping list" where
  "itemMappings allMappings item =
     (let variationId = orNull (li_variation_id item)
      in filter (\<lambda>m. mp_productId m = li_product_id item \<and>
                      (if truthy variationId then mp_variationId m = variationId
                       else mp_variationId m = None)) allMappings)"

definition displayName :: "local_material \<Rightarrow> int option \<Rightarrow> string" where
  "displayName material materialVariationId =
     (if truthy materialVariationId then
        (case variations material of
           None \<Rightarrow> rm_name material
         | Some vs \<Rightarrow>
             (case find (sameVariation materialVariationId) vs of
                Some variation \<Rightarrow> rm_name material @ '' - '' @ rv_name variation
              | None \<Rightarrow> rm_name material))
      else rm_name material)"

definition addMapping ::
  "local_material list \<Rightarrow> line_item \<Rightarrow> material_product_mapping \<Rightarrow>
   (stock_key \<times> needed_entry) list \<Rightarrow> (stock_key \<times> needed_entry) list" where
  "addMapping localMaterials item mapping materialsNeeded =
     (case findMaterial localMaterials (mp_materialProductId mapping) of
        None \<Rightarrow> materialsNeeded
      | Some material \<Rightarrow>
          (let normalizedMaterialId = normalizeId localMaterials (mp_materialProductId mapping);
               normalizedVariationId = normalizeVariationId material (mp_materialVariationId mapping);
               key = (normalizedMaterialId, orNull normalizedVariationId);
               quantityNeeded = mp_quantityUsed mapping * li_quantity item
           in neededAdd materialsNeeded key
                \<lparr>ne_needed = quantityNeeded,
                 ne_materialName = displayName material (mp_materialVariationId mapping),
                 ne_materialId = normalizedMaterialId,
                 ne_variationId = normalizedVariationId\<rparr>))"

definition materialsNeededFor ::
  "local_material list \<Rightarrow> material_product_mapping list \<Rightarrow> wc_order \<Rightarrow> (stock_key \<times> needed_entry) list" where
  "materialsNeededFor localMaterials allMappings order =
     fold (\<lambda>item needed. fold (addMapping localMaterials item) (itemMappings allMappings item) needed)
          (wo_line_items order) []"

record missing_material =
  mm_materialId :: int
  mm_variationId :: "int option"
  mm_materialName :: string
  mm_needed :: int
  mm_available :: int

record fulfillment =
  canFulfill :: bool
  missingMaterials :: "missing_material list"
  isProcessed :: bool

definition availableStock :: "(stock_key \<rightharpoonup> int) \<Rightarrow> (stock_key \<rightharpoonup> int) \<Rightarrow> stock_key \<Rightarrow> int" where
  "availableStock materialsMap cumulativeStockUsed key =
     or0 (materialsMap key) - or0 (cumulativeStockUsed key)"

definition checkEntry ::
  "(stock_key \<rightharpoonup> int) \<Rightarrow> (stock_key \<rightharpoonup> int) \<Rightarrow> stock_key \<times> needed_entry \<Rightarrow>
   bool \<times> missing_material list \<Rightarrow> bool \<times> missing_material list" where
  "checkEntry materialsMap cumulativeStockUsed ke acc =
     (let available = availableStock materialsMap cumulativeStockUsed (fst ke)
      in if available < ne_needed (snd ke) then
           (False, snd acc @
              [\<lparr>mm_materialId = ne_materialId (snd ke),
                mm_variationId = ne_variationId (snd ke),
                mm_materialName = ne_materialName (snd ke),
                mm_needed = ne_needed (snd ke),
                mm_available = max 0 available\<rparr>])
         else acc)"

definition commitEntry :: "stock_key \<times> needed_entry \<Rightarrow> (stock_key \<rightharpoonup> int) \<Rightarrow> (stock_key \<rightharpoonup> int)" where
  "commitEntry ke cumulativeStockUsed =
     cumulativeStockUsed(fst ke \<mapsto> or0 (cumulativeStockUsed (fst ke)) + ne_needed (snd ke))"

text \<open>
  One iteration of the loop over the sorted orders: the claims made so far go in, the
  claims after this order and the order's entry of the response come out.
\<close>

definition fulfillOrder ::
  "local_material list \<Rightarrow> material_product_mapping list \<Rightarrow> int list \<Rightarrow> (stock_key \<rightharpoonup> int) \<Rightarrow>
   wc_order \<Rightarrow> (stock_key \<rightharpoonup> int) \<Rightarrow> (stock_key \<rightharpoonup> int) \<times> fulfillment" where
  "fulfillOrder localMaterials allMappings processedOrderIds materialsMap order cumulativeStockUsed =
     (if wo_id order \<in> set processedOrderIds then
        (cumulativeStockUsed, \<lparr>canFulfill = True, missingMaterials = [], isProcessed = True\<rparr>)
      else
        (let materialsNeeded = materialsNeededFor localMaterials allMappings order;
             chk = fold (checkEntry materialsMap cumulativeStockUsed) materialsNeeded (True, [])
         in (if fst chk then fold commitEntry materialsNeeded cumulativeStockUsed
             else cumulativeStockUsed,
             \<lparr>canFulfill = fst chk, missingMaterials = snd chk, isProcessed = False\<rparr>)))"

text \<open>
  The loop, returning the final claims and, in processing order, each order with the
  entry written for it.
\<close>

fun fulfillmentLoop ::
  "local_material list \<Rightarrow> material_product_mapping list \<Rightarrow> int list \<Rightarrow> (stock_key \<rightharpoonup> int) \<Rightarrow>
   wc_order list \<Rightarrow> (stock_key \<rightharpoonup> int) \<Rightarrow> (stock_key \<rightharpoonup> int) \<times> (wc_order \<times> fulfillment) list" where
  "fulfillmentLoop localMaterials allMappings processedOrderIds materialsMap [] used = (used, [])"
| "fulfillmentLoop localMaterials allMappings processedOrderIds materialsMap (order # rest) used =
     (let step = fulfillOrder localMaterials allMappings processedOrderIds materialsMap order used;
          tl = fulfillmentLoop localMaterials allMappings processedOrderIds materialsMap rest (fst step)
      in (fst tl, (order, snd step) # snd tl))"

definition fulfillmentPass ::
  "wc_order list \<Rightarrow> local_material list \<Rightarrow> material_product_mapping list \<Rightarrow> int list \<Rightarrow>
   (stock_key \<rightharpoonup> int) \<times> (wc_order \<times> fulfillment) list" where
  "fulfillmentPass orders localMaterials allMappings processedOrderIds =
     fulfillmentLoop localMaterials allMappings processedOrderIds (buildStockMap localMaterials)
       (sortedOrders orders) Map.empty"

text \<open>
  The response object \<^verbatim>\<open>fulfillmentStatus\<close>, keyed by order id; an assignment for an id
  that is already present replaces the entry.
\<close>

definition fulfillmentStatus ::
  "wc_order list \<Rightarrow> local_material list \<Rightarrow> material_product_mapping list \<Rightarrow> int list \<Rightarrow>
   (int \<rightharpoonup> fulfillment)" where
  "fulfillmentStatus orders localMaterials allMappings processedOrderIds =
     newMap (map (\<lambda>p. (wo_id (fst p), snd p))
                 (snd (fulfillmentPass orders localMaterials allMappings processedOrderIds)))"

section \<open>Storage\<close>

text \<open>
  The tables of the PostgreSQL database as lists of rows, and the methods of
  \<^verbatim>\<open>DatabaseStorage\<close> as functions of the database. A method that writes returns the
  new database.

  The columns are typed. An \<^verbatim>\<open>integer\<close> column holds 32 bits, \<^verbatim>\<open>order_number\<close> holds
  50 characters and \<^verbatim>\<open>reason\<close> 255. PostgreSQL rejects a statement that carries an
  integer outside the 32-bit range, as a value to store or as a parameter a column is
  compared with, or a string longer than its column, and the method throws. Numbers in
  requests are integers and strings are ASCII, one \<open>char\<close> a character. A failure of the
  database connection is outside the model.
\<close>

record stock_ledger_entry =
  sl_materialProductId :: int
  sl_materialVariationId :: "int option"
  sl_orderId :: "int option"
  sl_orderNumber :: "string option"
  sl_quantityChange :: int
  sl_previousStock :: "int option"
  sl_newStock :: "int option"
  sl_reason :: string

record processed_order =
  pr_orderId :: int
  pr_orderNumber :: "string option"

datatype purchase_order_status = Draft | Ordered | Partially_received | Received | Cancelled

record purchase_order =
  po_id :: int
  po_poNumber :: string
  po_status :: purchase_order_status
  po_receivedDate :: "int option"

record purchase_order_item =
  pi_id :: int
  pi_purchaseOrderId :: int
  pi_materialProductId :: int
  pi_materialVariationId :: "int option"
  pi_materialName :: string
  pi_quantityOrdered :: int
  pi_quantityReceived :: int

text \<open>\<^verbatim>\<open>PurchaseOrderWithDetails\<close>: the row with its items.\<close>

record purchase_order_with_details = purchase_order +
  po_items :: "purchase_order_item list"

record database =
  rawMaterials :: "raw_material list"
  rawMaterialVariations :: "raw_material_variation list"
  materialProductMappings :: "material_product_mapping list"
  stockLedger :: "stock_ledger_entry list"
  processedOrders :: "processed_order list"
  purchaseOrders :: "purchase_order list"
  purchaseOrderItems :: "purchase_order_item list"

text \<open>
  What a storage method throws: the database rejected a value of the statement, an
  insert met a unique key, or \<^verbatim>\<open>receivePurchaseOrderItems\<close> did not find the order.
\<close>

datatype thrown = Rejected | UniqueViolation | PurchaseOrderNotFound

definition pgInteger :: "int \<Rightarrow> bool" where
  "pgInteger n = (- 2147483648 \<le> n \<and> n \<le> 2147483647)"

definition pgIntegerOrNull :: "int option \<Rightarrow> bool" where
  "pgIntegerOrNull x = (case x of None \<Rightarrow> True | Some n \<Rightarrow> pgInteger n)"

definition varcharOrNull :: "nat \<Rightarrow> string option \<Rightarrow> bool" where
  "varcharOrNull n x = (case x of None \<Rightarrow> True | Some s \<Rightarrow> length s \<le> n)"

definition getMaterialMappings :: "database \<Rightarrow> material_product_mapping list" where
  "getMaterialMappings db = materialProductMappings db"

definition getMaterialMappingsForProduct ::
  "database \<Rightarrow> int \<Rightarrow> int option \<Rightarrow> thrown + material_product_mapping list" where
  "getMaterialMappingsForProduct db productId variationId =
     (if truthy variationId then
        (if pgInteger productId \<and> pgIntegerOrNull variationId then
           Inr (filter (\<lambda>m. mp_productId m = productId \<and> mp_variationId m = variationId)
                       (materialProductMappings db))
         else Inl Rejected)
      else
        (if pgInteger productId then
           Inr (filter (\<lambda>m. mp_productId m = productId) (materialProductMappings db))
         else Inl Rejected))"

definition createStockLedgerEntry :: "database \<Rightarrow> stock_ledger_entry \<Rightarrow> thrown + database" where
  "createStockLedgerEntry db entry =
     (if pgInteger (sl_materialProductId entry) \<and> pgIntegerOrNull (sl_materialVariationId entry) \<and>
         pgIntegerOrNull (sl_orderId entry) \<and> varcharOrNull 50 (sl_orderNumber entry) \<and>
         pgInteger (sl_quantityChange entry) \<and> pgIntegerOrNull (sl_previousStock entry) \<and>
         pgIntegerOrNull (sl_newStock entry) \<and> length (sl_reason entry) \<le> 255
      then Inr (db\<lparr>stockLedger := stockLedger db @ [entry]\<rparr>)
      else Inl Rejected)"

definition getProcessedOrder :: "database \<Rightarrow> int \<Rightarrow> thrown + processed_order option" where
  "getProcessedOrder db orderId =
     (if pgInteger orderId then Inr (find (\<lambda>p. pr_orderId p = orderId) (processedOrders db))
      else Inl Rejected)"

definition getAllProcessedOrders :: "database \<Rightarrow> processed_order list" where
  "getAllProcessedOrders db = processedOrders db"

text \<open>
  The insert fails on a value that does not fit its column and on the unique constraint
  of \<^verbatim>\<open>processed_orders.order_id\<close>.
\<close>

definition markOrderProcessed :: "database \<Rightarrow> processed_order \<Rightarrow> thrown + database" where
  "markOrderProcessed db data =
     (if \<not> (pgInteger (pr_orderId data) \<and> varcharOrNull 50 (pr_orderNumber data)) then Inl Rejected
      else if list_ex (\<lambda>p. pr_orderId p = pr_orderId data) (processedOrders db) then
        Inl UniqueViolation
      else Inr (db\<lparr>processedOrders := processedOrders db @ [data]\<rparr>))"

definition withVariations :: "raw_material \<Rightarrow> raw_material_variation list \<Rightarrow> local_material" where
  "withVariations material vs =
     \<lparr>rm_id = rm_id material, rm_woocommerceId = rm_woocommerceId material,
      rm_name = rm_name material, rm_type = rm_type material,
      rm_stockQuantity = rm_stockQuantity material, rm_manageStock = rm_manageStock material,
      rm_isActive = rm_isActive material,
      variations = (if vs \<noteq> [] then Some vs else None)\<rparr>"

text \<open>
  \<^verbatim>\<open>getLocalRawMaterials()\<close> with its default \<^verbatim>\<open>activeOnly = true\<close>. Rows come back in
  the order of their names, taken here to be the order of the names as byte strings.
\<close>

definition getLocalRawMaterials :: "database \<Rightarrow> local_material list" where
  "getLocalRawMaterials db =
     map (\<lambda>material.
            withVariations material
              (sort_key rv_name
                 (filter (\<lambda>v. rv_materialId v = rm_id material \<and> rv_isActive v)
                         (rawMaterialVariations db))))
         (sort_key rm_name (filter rm_isActive (rawMaterials db)))"

text \<open>
  \<^verbatim>\<open>getLocalRawMaterial(id)\<close>; the handler below reads only the row, so the variations
  attached to it are left out.
\<close>

definition getLocalRawMaterial :: "database \<Rightarrow> int \<Rightarrow> thrown + raw_material option" where
  "getLocalRawMaterial db i =
     (if pgInteger i then Inr (find (\<lambda>m. rm_id m = i) (rawMaterials db)) else Inl Rejected)"

definition getLocalRawMaterialVariation ::
  "database \<Rightarrow> int \<Rightarrow> thrown + raw_material_variation option" where
  "getLocalRawMaterialVariation db i =
     (if pgInteger i then Inr (find (\<lambda>v. rv_id v = i) (rawMaterialVariations db))
      else Inl Rejected)"

definition updateLocalRawMaterialStock :: "database \<Rightarrow> int \<Rightarrow> int \<Rightarrow> thrown + database" where
  "updateLocalRawMaterialStock db i newStock =
     (if pgInteger i \<and> pgInteger newStock then
        Inr (db\<lparr>rawMaterials :=
                  map (\<lambda>m. if rm_id m = i then m\<lparr>rm_stockQuantity := Some newStock\<rparr> else m)
                      (rawMaterials db)\<rparr>)
      else Inl Rejected)"

definition updateLocalRawMaterialVariationStock :: "database \<Rightarrow> int \<Rightarrow> int \<Rightarrow> thrown + database" where
  "updateLocalRawMaterialVariationStock db i newStock =
     (if pgInteger i \<and> pgInteger newStock then
        Inr (db\<lparr>rawMaterialVariations :=
                  map (\<lambda>v. if rv_id v = i then v\<lparr>rv_stockQuantity := Some newStock\<rparr> else v)
                      (rawMaterialVariations db)\<rparr>)
      else Inl Rejected)"

definition getPurchaseOrder :: "database \<Rightarrow> int \<Rightarrow> thrown + purchase_order_with_details option" where
  "getPurchaseOrder db i =
     (if \<not> pgInteger i then Inl Rejected
      else case find (\<lambda>p. po_id p = i) (purchaseOrders db) of
             None \<Rightarrow> Inr None
           | Some row \<Rightarrow>
               Inr (Some \<lparr>po_id = po_id row, po_poNumber = po_poNumber row,
                          po_status = po_status row, po_receivedDate = po_receivedDate row,
                          po_items = filter (\<lambda>it. pi_purchaseOrderId it = i)
                                            (purchaseOrderItems db)\<rparr>))"

record item_receipt =
  ir_itemId :: int
  ir_quantityReceived :: int

text \<open>
  One turn of the loop of \<^verbatim>\<open>receivePurchaseOrderItems\<close>. The loop carries what has been
  thrown, if anything, with the database as written so far; once something is thrown the
  remaining turns do nothing.
\<close>

definition addReceived :: "item_receipt \<Rightarrow> thrown option \<times> database \<Rightarrow> thrown option \<times> database" where
  "addReceived receipt acc =
     (case fst acc of
        Some e \<Rightarrow> acc
      | None \<Rightarrow>
          (let db = snd acc
           in if \<not> pgInteger (ir_itemId receipt) then (Some Rejected, db)
              else case find (\<lambda>it. pi_id it = ir_itemId receipt) (purchaseOrderItems db) of
                     None \<Rightarrow> acc
                   | Some item \<Rightarrow>
                       if ir_quantityReceived receipt > 0 then
                         (let newQuantityReceived =
                                pi_quantityReceived item + ir_quantityReceived receipt
                          in if pgInteger newQuantityReceived then
                               (None,
                                db\<lparr>purchaseOrderItems :=
                                     map (\<lambda>it. if pi_id it = ir_itemId receipt
                                                then it\<lparr>pi_quantityReceived := newQuantityReceived\<rparr>
                                                else it)
                                         (purchaseOrderItems db)\<rparr>)
                             else (Some Rejected, db))
                       else acc))"

definition nextStatus :: "purchase_order_with_details \<Rightarrow> purchase_order_status" where
  "nextStatus po =
     (let allReceived = list_all (\<lambda>it. pi_quantityReceived it \<ge> pi_quantityOrdered it) (po_items po);
          someReceived = list_ex (\<lambda>it. pi_quantityReceived it > 0) (po_items po)
      in if allReceived then Received
         else if someReceived then Partially_received
         else po_status po)"

text \<open>
  \<^verbatim>\<open>receivePurchaseOrderItems\<close>: the order as read back at the end, or what was thrown,
  with the database as it was left. \<open>now\<close> is the value of \<^verbatim>\<open>new Date()\<close> at the status
  update.
\<close>

definition receivePurchaseOrderItems ::
  "database \<Rightarrow> int \<Rightarrow> item_receipt list \<Rightarrow> int \<Rightarrow>
   (thrown + purchase_order_with_details option) \<times> database" where
  "receivePurchaseOrderItems db purchaseOrderId itemReceipts now =
     (let looped = fold addReceived itemReceipts (None, db);
          db1 = snd looped
      in case fst looped of
           Some e \<Rightarrow> (Inl e, db1)
         | None \<Rightarrow>
             (case getPurchaseOrder db1 purchaseOrderId of
                Inl e \<Rightarrow> (Inl e, db1)
              | Inr None \<Rightarrow> (Inl PurchaseOrderNotFound, db1)
              | Inr (Some po) \<Rightarrow>
                  (let allReceived =
                         list_all (\<lambda>it. pi_quantityReceived it \<ge> pi_quantityOrdered it) (po_items po);
                       newStatus = nextStatus po;
                       db2 = (if newStatus \<noteq> po_status po then
                                db1\<lparr>purchaseOrders :=
                                      map (\<lambda>p. if po_id p = purchaseOrderId
                                                then p\<lparr>po_status := newStatus,
                                                       po_receivedDate :=
                                                         (if allReceived then Some now else None)\<rparr>
                                                else p)
                                          (purchaseOrders db1)\<rparr>
                              else db1)
                   in (getPurchaseOrder db2 purchaseOrderId, db2))))"

section \<open>Order stock processor\<close>

text \<open>What a handler answers when it does not succeed: the HTTP status with its message.\<close>

datatype api_error = BadRequest string | NotFound string | ServerError

record order_request =
  rq_orderId :: int
  rq_orderNumber :: string
  rq_lineItems :: "line_item list"

record deduction_result =
  dr_materialId :: int
  dr_materialVariationId :: "int option"
  dr_materialName :: string
  dr_previousStock :: int
  dr_newStock :: int
  dr_quantityDeducted :: int
  dr_lineItemName :: string

record skipped_item =
  sk_productId :: int
  sk_variationId :: "int option"
  sk_name :: string
  sk_materialId :: int
  sk_materialVariationId :: "int option"
  sk_materialName :: "string option"
  sk_reason :: string

record unmapped_item =
  um_productId :: int
  um_variationId :: "int option"
  um_name :: string
  um_quantity :: int
  um_reason :: string

text \<open>An entry of \<^verbatim>\<open>failedUpdates\<close>; its reason carries what the storage method threw.\<close>

record failed_update =
  fu_productId :: int
  fu_variationId :: "int option"
  fu_name :: string
  fu_materialId :: int
  fu_materialName :: string
  fu_thrown :: thrown

text \<open>
  The state of one run: the database, the prefetched materials (the objects of
  \<^verbatim>\<open>materialsMap\<close>, whose stock the run overwrites as it deducts), the lists of the
  response, and what a storage call outside the inner \<^verbatim>\<open>try\<close> has thrown, which ends
  the loop.
\<close>

record processing =
  pc_db :: database
  pc_materialsMap :: "int \<rightharpoonup> local_material"
  pc_results :: "deduction_result list"
  pc_skippedItems :: "skipped_item list"
  pc_unmappedItems :: "unmapped_item list"
  pc_failedUpdates :: "failed_update list"
  pc_thrown :: "thrown option"

text \<open>
  The variation a mapping deducts from: \<^verbatim>\<open>null\<close> unless the mapping names a variation
  and the material carries a list of variations, in which case it is the first one with
  that id. The id is returned with the row.
\<close>

definition findVariation :: "local_material \<Rightarrow> int option \<Rightarrow> (int \<times> raw_material_variation) option" where
  "findVariation material materialVariationId =
     (case materialVariationId of
        None \<Rightarrow> None
      | Some i \<Rightarrow>
          (case variations material of
             None \<Rightarrow> None
           | Some vs \<Rightarrow> map_option (Pair i) (find (\<lambda>v. rv_id v = i) vs)))"

fun updateFirst :: "('a \<Rightarrow> bool) \<Rightarrow> ('a \<Rightarrow> 'a) \<Rightarrow> 'a list \<Rightarrow> 'a list" where
  "updateFirst P f [] = []"
| "updateFirst P f (x # xs) = (if P x then f x # xs else x # updateFirst P f xs)"

definition failedUpdate :: "line_item \<Rightarrow> material_product_mapping \<Rightarrow> string \<Rightarrow> thrown \<Rightarrow> failed_update" where
  "failedUpdate item mapping materialName e =
     \<lparr>fu_productId = li_product_id item, fu_variationId = li_variation_id item,
      fu_name = li_name item, fu_materialId = mp_materialProductId mapping,
      fu_materialName = materialName, fu_thrown = e\<rparr>"

text \<open>
  The body of the loop over the mappings of a line item. Inside the \<^verbatim>\<open>try\<close> the stock
  is written first, then the prefetched object, then the ledger entry: when the stock
  write throws nothing is written, when the ledger insert throws the stock stays
  written; either way the mapping goes to \<^verbatim>\<open>failedUpdates\<close> and the loop goes on.
  The numbers of JavaScript compute exactly on integers below \<open>2 ^ 53\<close> in magnitude, and a
  new stock at or beyond that is, rounded or not, outside the 32 bits of the column: the
  write is rejected here as it is there.
\<close>

definition processMapping ::
  "int \<Rightarrow> string \<Rightarrow> line_item \<Rightarrow> material_product_mapping \<Rightarrow> processing \<Rightarrow> processing" where
  "processMapping orderId orderNumber item mapping st =
     (case pc_materialsMap st (mp_materialProductId mapping) of
        None \<Rightarrow>
          st\<lparr>pc_skippedItems := pc_skippedItems st @
               [\<lparr>sk_productId = li_product_id item, sk_variationId = li_variation_id item,
                 sk_name = li_name item, sk_materialId = mp_materialProductId mapping,
                 sk_materialVariationId = None, sk_materialName = None,
                 sk_reason = ''Material product no longer exists in inventory''\<rparr>]\<rparr>
      | Some material \<Rightarrow>
          (let isVariationMapping = (mp_materialVariationId mapping \<noteq> None);
               variation = findVariation material (mp_materialVariationId mapping)
           in if isVariationMapping \<and> variations material \<noteq> None \<and> variation = None then
                st\<lparr>pc_skippedItems := pc_skippedItems st @
                     [\<lparr>sk_productId = li_product_id item, sk_variationId = li_variation_id item,
                       sk_name = li_name item, sk_materialId = mp_materialProductId mapping,
                       sk_materialVariationId = mp_materialVariationId mapping,
                       sk_materialName = None,
                       sk_reason = ''Material variation no longer exists in inventory''\<rparr>]\<rparr>
              else
                (let manageStock = (case variation of Some iv \<Rightarrow> rv_manageStock (snd iv)
                                    | None \<Rightarrow> rm_manageStock material);
                     displayName = (case variation of
                                      Some iv \<Rightarrow> rm_name material @ '' - '' @ rv_name (snd iv)
                                    | None \<Rightarrow> rm_name material)
                 in if \<not> manageStock then
                      st\<lparr>pc_skippedItems := pc_skippedItems st @
                           [\<lparr>sk_productId = li_product_id item,
                             sk_variationId = li_variation_id item,
                             sk_name = li_name item,
                             sk_materialId = mp_materialProductId mapping,
                             sk_materialVariationId = None,
                             sk_materialName = Some displayName,
                             sk_reason = ''Material does not have stock management enabled''\<rparr>]\<rparr>
                    else
                      (let quantityToDeduct = mp_quantityUsed mapping * li_quantity item;
                           previousStock = (case variation of
                                              Some iv \<Rightarrow> or0 (rv_stockQuantity (snd iv))
                                            | None \<Rightarrow> or0 (rm_stockQuantity material));
                           newStock = previousStock - quantityToDeduct
                       in case (case variation of
                                  Some iv \<Rightarrow>
                                    updateLocalRawMaterialVariationStock (pc_db st) (fst iv) newStock
                                | None \<Rightarrow>
                                    updateLocalRawMaterialStock (pc_db st)
                                      (mp_materialProductId mapping) newStock) of
                            Inl e \<Rightarrow>
                              st\<lparr>pc_failedUpdates := pc_failedUpdates st @
                                   [failedUpdate item mapping displayName e]\<rparr>
                          | Inr db1 \<Rightarrow>
                              (let material1 =
                                     (case variation of
                                        Some iv \<Rightarrow>
                                          material\<lparr>variations :=
                                            map_option
                                              (updateFirst (\<lambda>v. rv_id v = fst iv)
                                                 (\<lambda>v. v\<lparr>rv_stockQuantity := Some newStock\<rparr>))
                                              (variations material)\<rparr>
                                      | None \<Rightarrow> material\<lparr>rm_stockQuantity := Some newStock\<rparr>);
                                   st1 = st\<lparr>pc_db := db1,
                                            pc_materialsMap :=
                                              (pc_materialsMap st)
                                                (mp_materialProductId mapping \<mapsto> material1)\<rparr>
                               in case createStockLedgerEntry db1
                                         \<lparr>sl_materialProductId = mp_materialProductId mapping,
                                          sl_materialVariationId =
                                            orNull (mp_materialVariationId mapping),
                                          sl_orderId = Some orderId,
                                          sl_orderNumber = Some orderNumber,
                                          sl_quantityChange = - quantityToDeduct,
                                          sl_previousStock = Some previousStock,
                                          sl_newStock = Some newStock,
                                          sl_reason = ''order''\<rparr> of
                                    Inl e \<Rightarrow>
                                      st1\<lparr>pc_failedUpdates := pc_failedUpdates st @
                                            [failedUpdate item mapping displayName e]\<rparr>
                                  | Inr db2 \<Rightarrow>
                                      st1\<lparr>pc_db := db2,
                                           pc_results := pc_results st @
                                             [\<lparr>dr_materialId = mp_materialProductId mapping,
                                               dr_materialVariationId =
                                                 orNull (mp_materialVariationId mapping),
                                               dr_materialName = displayName,
                                               dr_previousStock = previousStock,
                                               dr_newStock = newStock,
                                               dr_quantityDeducted = quantityToDeduct,
                                               dr_lineItemName = li_name item\<rparr>]\<rparr>)))))"

text \<open>
  The body of the loop over the line items. The lookup of the mappings is outside the
  inner \<^verbatim>\<open>try\<close>: when it throws the loop is left.
\<close>

definition processItem :: "int \<Rightarrow> string \<Rightarrow> line_item \<Rightarrow> processing \<Rightarrow> processing" where
  "processItem orderId orderNumber item st =
     (case pc_thrown st of
        Some e \<Rightarrow> st
      | None \<Rightarrow>
          (case getMaterialMappingsForProduct (pc_db st) (li_product_id item)
                  (li_variation_id item) of
             Inl e \<Rightarrow> st\<lparr>pc_thrown := Some e\<rparr>
           | Inr mappings \<Rightarrow>
               if mappings = [] then
                 st\<lparr>pc_unmappedItems := pc_unmappedItems st @
                      [\<lparr>um_productId = li_product_id item, um_variationId = li_variation_id item,
                        um_name = li_name item, um_quantity = li_quantity item,
                        um_reason = ''No material mapping found for this product/variation''\<rparr>]\<rparr>
               else fold (processMapping orderId orderNumber item) mappings st))"

record process_response =
  rs_results :: "deduction_result list"
  rs_unmappedItems :: "unmapped_item list"
  rs_skippedItems :: "skipped_item list"
  rs_failedUpdates :: "failed_update list"

text \<open>
  \<^verbatim>\<open>POST /api/process-order-stock\<close> awaits every storage call and runs in no transaction,
  so storage calls of other requests can run between its own. It has three parts: the
  check for the marker, the loop over the line items, started from the database and the
  materials prefetched from it, and the insert of the marker with the answer. Anything
  thrown outside the inner \<^verbatim>\<open>try\<close> is answered with status 500 and leaves the writes
  made before it in place.
\<close>

definition runItems :: "database \<Rightarrow> order_request \<Rightarrow> processing" where
  "runItems db req =
     fold (processItem (rq_orderId req) (rq_orderNumber req)) (rq_lineItems req)
       \<lparr>pc_db = db,
        pc_materialsMap = newMap (map (\<lambda>m. (rm_id m, m)) (getLocalRawMaterials db)),
        pc_results = [], pc_skippedItems = [], pc_unmappedItems = [], pc_failedUpdates = [],
        pc_thrown = None\<rparr>"

text \<open>The last part, on the database as it is when the loop of the call \<open>st\<close> has ended.\<close>

definition markAndAnswer ::
  "database \<Rightarrow> processing \<Rightarrow> order_request \<Rightarrow> (api_error + process_response) \<times> database" where
  "markAndAnswer db st req =
     (case pc_thrown st of
        Some e \<Rightarrow> (Inl ServerError, db)
      | None \<Rightarrow>
          (case markOrderProcessed db
                  \<lparr>pr_orderId = rq_orderId req, pr_orderNumber = Some (rq_orderNumber req)\<rparr> of
             Inl e \<Rightarrow> (Inl ServerError, db)
           | Inr db1 \<Rightarrow>
               (Inr \<lparr>rs_results = pc_results st, rs_unmappedItems = pc_unmappedItems st,
                     rs_skippedItems = pc_skippedItems st,
                     rs_failedUpdates = pc_failedUpdates st\<rparr>, db1)))"

text \<open>A call that no other request runs into.\<close>

definition processOrderStock :: "database \<Rightarrow> order_request \<Rightarrow> (api_error + process_response) \<times> database" where
  "processOrderStock db req =
     (case getProcessedOrder db (rq_orderId req) of
        Inl e \<Rightarrow> (Inl ServerError, db)
      | Inr (Some existingProcessed) \<Rightarrow>
          (Inl (BadRequest ''This order has already been processed for inventory''), db)
      | Inr None \<Rightarrow>
          (let st = runItems db req in markAndAnswer (pc_db st) st req))"

text \<open>
  Two calls of which the second makes its check for the marker before the first has
  inserted its marker: both checks read the database as it is at the start, the loops
  run one after the other, then the first call inserts its marker and answers, then the
  second. The schedule is that of two calls that both find no marker.
\<close>

definition twoOverlappingCalls ::
  "database \<Rightarrow> order_request \<Rightarrow> order_request \<Rightarrow>
   (((api_error + process_response) \<times> (api_error + process_response)) \<times> database) option" where
  "twoOverlappingCalls db reqA reqB =
     (if getProcessedOrder db (rq_orderId reqA) = Inr None \<and>
         getProcessedOrder db (rq_orderId reqB) = Inr None then
        (let stA = runItems db reqA;
             stB = runItems (pc_db stA) reqB;
             answerA = markAndAnswer (pc_db stB) stA reqA;
             answerB = markAndAnswer (snd answerA) stB reqB
         in Some ((fst answerA, fst answerB), snd answerB))
      else None)"

section \<open>Purchase order receiving\<close>

record receipt_result =
  rr_itemId :: int
  rr_materialName :: string
  rr_quantityReceived :: int
  rr_previousStock :: int
  rr_newStock :: int

text \<open>
  The state of the loop over the receipts: the database, \<^verbatim>\<open>results\<close>,
  \<^verbatim>\<open>validatedReceipts\<close> and what a storage call has thrown, which ends the loop.
\<close>

record receiving =
  rc_db :: database
  rc_results :: "receipt_result list"
  rc_validatedReceipts :: "item_receipt list"
  rc_thrown :: "thrown option"

text \<open>
  The stock of the variation or of the material of a line as the database has it now, or
  what the read threw.
\<close>

definition currentStock :: "database \<Rightarrow> purchase_order_item \<Rightarrow> thrown + int" where
  "currentStock db item =
     (case orNull (pi_materialVariationId item) of
        Some vid \<Rightarrow>
          (case getLocalRawMaterialVariation db vid of
             Inl e \<Rightarrow> Inl e
           | Inr None \<Rightarrow> Inr 0
           | Inr (Some variation) \<Rightarrow> Inr (or0 (rv_stockQuantity variation)))
      | None \<Rightarrow>
          (case getLocalRawMaterial db (pi_materialProductId item) of
             Inl e \<Rightarrow> Inl e
           | Inr None \<Rightarrow> Inr 0
           | Inr (Some material) \<Rightarrow> Inr (or0 (rm_stockQuantity material))))"

definition updateStock :: "database \<Rightarrow> purchase_order_item \<Rightarrow> int \<Rightarrow> thrown + database" where
  "updateStock db item newStock =
     (case orNull (pi_materialVariationId item) of
        Some vid \<Rightarrow> updateLocalRawMaterialVariationStock db vid newStock
      | None \<Rightarrow> updateLocalRawMaterialStock db (pi_materialProductId item) newStock)"

text \<open>
  The body of the loop. The items are those of \<open>order\<close>, read once before the loop; the
  clamped receipt is pushed before the stock is read and written.
\<close>

definition receiveOne :: "purchase_order_with_details \<Rightarrow> item_receipt \<Rightarrow> receiving \<Rightarrow> receiving" where
  "receiveOne order receipt st =
     (case rc_thrown st of
        Some e \<Rightarrow> st
      | None \<Rightarrow>
          (case find (\<lambda>it. pi_id it = ir_itemId receipt) (po_items order) of
             None \<Rightarrow> st
           | Some item \<Rightarrow>
               if ir_quantityReceived receipt \<le> 0 then st
               else
                 (let remainingToReceive = pi_quantityOrdered item - pi_quantityReceived item;
                      quantityToReceive = min (ir_quantityReceived receipt) remainingToReceive
                  in if quantityToReceive \<le> 0 then st
                     else
                       (let st1 = st\<lparr>rc_validatedReceipts := rc_validatedReceipts st @
                                        [\<lparr>ir_itemId = ir_itemId receipt,
                                          ir_quantityReceived = quantityToReceive\<rparr>]\<rparr>
                        in case currentStock (rc_db st) item of
                             Inl e \<Rightarrow> st1\<lparr>rc_thrown := Some e\<rparr>
                           | Inr previousStock \<Rightarrow>
                               (let newStock = previousStock + quantityToReceive
                                in case updateStock (rc_db st) item newStock of
                                     Inl e \<Rightarrow> st1\<lparr>rc_thrown := Some e\<rparr>
                                   | Inr db1 \<Rightarrow>
                                       (case createStockLedgerEntry db1
                                               \<lparr>sl_materialProductId = pi_materialProductId item,
                                                sl_materialVariationId =
                                                  orNull (pi_materialVariationId item),
                                                sl_orderId = None,
                                                sl_orderNumber = Some (po_poNumber order),
                                                sl_quantityChange = quantityToReceive,
                                                sl_previousStock = Some previousStock,
                                                sl_newStock = Some newStock,
                                                sl_reason = ''purchase_order''\<rparr> of
                                          Inl e \<Rightarrow> st1\<lparr>rc_db := db1, rc_thrown := Some e\<rparr>
                                        | Inr db2 \<Rightarrow>
                                            st1\<lparr>rc_db := db2,
                                                rc_results := rc_results st @
                                                  [\<lparr>rr_itemId = pi_id item,
                                                    rr_materialName = pi_materialName item,
                                                    rr_quantityReceived = quantityToReceive,
                                                    rr_previousStock = previousStock,
                                                    rr_newStock = newStock\<rparr>]\<rparr>))))))"

text \<open>
  \<^verbatim>\<open>receiveItemsRequestSchema.parse\<close>: every \<^verbatim>\<open>quantityReceived\<close> is at least 0; the
  types of the fields are those of \<open>item_receipt\<close>.
\<close>

definition validReceiveRequest :: "item_receipt list \<Rightarrow> bool" where
  "validReceiveRequest items = list_all (\<lambda>r. 0 \<le> ir_quantityReceived r) items"

text \<open>
  \<^verbatim>\<open>POST /api/purchase-orders/:id/receive\<close>, for an id of the path that
  \<^verbatim>\<open>parseInt\<close> reads as the integer \<open>i\<close>. The body is parsed first; a body that does
  not parse is answered with status 400, anything a storage call throws with status 500
  and with the writes made before it left in place.
\<close>

definition receiveItems ::
  "database \<Rightarrow> int \<Rightarrow> item_receipt list \<Rightarrow> int \<Rightarrow>
   (api_error + purchase_order_with_details option \<times> receipt_result list) \<times> database" where
  "receiveItems db i items now =
     (if \<not> validReceiveRequest items then (Inl (BadRequest ''Invalid receive data''), db)
      else case getPurchaseOrder db i of
             Inl e \<Rightarrow> (Inl ServerError, db)
           | Inr None \<Rightarrow> (Inl (NotFound ''Purchase order not found''), db)
           | Inr (Some order) \<Rightarrow>
               if po_status order = Cancelled then
                 (Inl (BadRequest ''Cannot receive items for a cancelled order''), db)
               else if po_status order = Received then
                 (Inl (BadRequest ''This order has already been fully received''), db)
               else
                 (let st = fold (receiveOne order) items
                             \<lparr>rc_db = db, rc_results = [], rc_validatedReceipts = [],
                              rc_thrown = None\<rparr>
                  in case rc_thrown st of
                       Some e \<Rightarrow> (Inl ServerError, rc_db st)
                     | None \<Rightarrow>
                         (case receivePurchaseOrderItems (rc_db st) i (rc_validatedReceipts st) now of
                            (Inl e, db1) \<Rightarrow> (Inl ServerError, db1)
                          | (Inr updatedOrder, db1) \<Rightarrow> (Inr (updatedOrder, rc_results st), db1))))"

section \<open>Quantities of the allocation property\<close>



section \<open>Ledger consistency and the purchase order lifecycle\<close>

text \<open>
  The most recent ledger entry of a key, and the invariant of the specification: the
  stock of every material row and of every variation row equals \<^verbatim>\<open>newStock\<close> of the
  most recent ledger entry of its key, where there is one.
\<close>

definition lastEntry :: "database \<Rightarrow> int \<Rightarrow> int option \<Rightarrow> stock_ledger_entry option" where
  "lastEntry db materialId variationId =
     find (\<lambda>e. sl_materialProductId e = materialId \<and> sl_materialVariationId e = variationId)
          (rev (stockLedger db))"

definition materialAgrees :: "database \<Rightarrow> raw_material \<Rightarrow> bool" where
  "materialAgrees db m =
     (case lastEntry db (rm_id m) None of
        None \<Rightarrow> True
      | Some e \<Rightarrow> or0 (sl_newStock e) = or0 (rm_stockQuantity m))"

definition variationAgrees :: "database \<Rightarrow> raw_material_variation \<Rightarrow> bool" where
  "variationAgrees db v =
     (case lastEntry db (rv_materialId v) (Some (rv_id v)) of
        None \<Rightarrow> True
      | Some e \<Rightarrow> or0 (sl_newStock e) = or0 (rv_stockQuantity v))"

definition ledgerConsistent :: "database \<Rightarrow> bool" where
  "ledgerConsistent db =
     (list_all (materialAgrees db) (rawMaterials db) \<and>
      list_all (variationAgrees db) (rawMaterialVariations db))"


text \<open>A ledger entry adds up when its new stock is its previous stock plus its change.\<close>

definition entryAddsUp :: "stock_ledger_entry \<Rightarrow> bool" where
  "entryAddsUp e = (or0 (sl_newStock e) = or0 (sl_previousStock e) + sl_quantityChange e)"


section \<open>Example data\<close>

definition oak :: local_material where
  "oak = \<lparr>rm_id = 1, rm_woocommerceId = Some 50, rm_name = ''Oak'', rm_type = ''simple'',
           rm_stockQuantity = Some 10, rm_manageStock = True, rm_isActive = True,
           variations = None\<rparr>"


definition oakMapping :: material_product_mapping where
  "oakMapping = \<lparr>mp_productId = 100, mp_variationId = None, mp_materialProductId = 1,
                  mp_materialVariationId = None, mp_quantityUsed = 2\<rparr>"

definition tableItem :: line_item where
  "tableItem = \<lparr>li_product_id = 100, li_variation_id = None, li_quantity = 3, li_name = ''Table''\<rparr>"

definition orderA :: wc_order where
  "orderA = \<lparr>wo_id = 501, wo_status = ''pending'', wo_date_created = 1, wo_line_items = [tableItem]\<rparr>"

definition orderB :: wc_order where
  "orderB = \<lparr>wo_id = 502, wo_status = ''pending'', wo_date_created = 2, wo_line_items = [tableItem]\<rparr>"

definition glue :: local_material where
  "glue = \<lparr>rm_id = 2, rm_woocommerceId = None, rm_name = ''Glue'', rm_type = ''simple'',
            rm_stockQuantity = Some 0, rm_manageStock = False, rm_isActive = True,
            variations = None\<rparr>"

definition glueMapping :: material_product_mapping where
  "glueMapping = \<lparr>mp_productId = 200, mp_variationId = None, mp_materialProductId = 2,
                   mp_materialVariationId = None, mp_quantityUsed = 1\<rparr>"

definition orderG :: wc_order where
  "orderG = \<lparr>wo_id = 503, wo_status = ''pending'', wo_date_created = 3,
             wo_line_items = [\<lparr>li_product_id = 200, li_variation_id = None, li_quantity = 1,
                               li_name = ''Glued box''\<rparr>]\<rparr>"

definition oakRow :: raw_material where
  "oakRow = \<lparr>rm_id = 1, rm_woocommerceId = Some 50, rm_name = ''Oak'', rm_type = ''simple'',
              rm_stockQuantity = Some 10, rm_manageStock = True, rm_isActive = True\<rparr>"

definition poLine :: purchase_order_item where
  "poLine = \<lparr>pi_id = 1, pi_purchaseOrderId = 1, pi_materialProductId = 1,
              pi_materialVariationId = None, pi_materialName = ''Oak'',
              pi_quantityOrdered = 20, pi_quantityReceived = 0\<rparr>"

definition shop :: database where
  "shop = \<lparr>rawMaterials = [oakRow], rawMaterialVariations = [],
            materialProductMappings = [oakMapping], stockLedger = [], processedOrders = [],
            purchaseOrders = [\<lparr>po_id = 1, po_poNumber = ''PO-2026-001'', po_status = Ordered,
                                po_receivedDate = None\<rparr>],
            purchaseOrderItems = [poLine]\<rparr>"


definition req500 :: order_request where
  "req500 = \<lparr>rq_orderId = 500, rq_orderNumber = ''500'', rq_lineItems = [tableItem]\<rparr>"



text \<open>A mapping of one variation of the product sold.\<close>

definition variationMapping :: material_product_mapping where
  "variationMapping = oakMapping\<lparr>mp_variationId := Some 5\<rparr>"

definition variationShop :: database where
  "variationShop = shop\<lparr>materialProductMappings := [variationMapping]\<rparr>"

text \<open>
  A material whose only variation has been soft-deleted, a mapping that still names that
  variation, and a ledger that agrees with the stock of both.
\<close>

definition blackOak :: raw_material_variation where
  "blackOak = \<lparr>rv_id = 7, rv_materialId = 1, rv_woocommerceId = None, rv_name = ''Black'',
                rv_stockQuantity = Some 3, rv_manageStock = True, rv_isActive = False\<rparr>"

definition orphanShop :: database where
  "orphanShop =
     shop\<lparr>rawMaterialVariations := [blackOak],
          materialProductMappings := [oakMapping\<lparr>mp_materialVariationId := Some 7\<rparr>],
          stockLedger :=
            [\<lparr>sl_materialProductId = 1, sl_materialVariationId = None, sl_orderId = None,
              sl_orderNumber = None, sl_quantityChange = 10, sl_previousStock = Some 0,
              sl_newStock = Some 10, sl_reason = ''stock_take''\<rparr>,
             \<lparr>sl_materialProductId = 1, sl_materialVariationId = Some 7, sl_orderId = None,
              sl_orderNumber = None, sl_quantityChange = 3, sl_previousStock = Some 0,
              sl_newStock = Some 3, sl_reason = ''stock_take''\<rparr>]\<rparr>"







text \<open>The request for order 500 with an order number of 51 characters.\<close>

definition longReq :: order_request where
  "longReq = req500\<lparr>rq_orderNumber := replicate 51 CHR ''0''\<rparr>"

section \<open>Properties of the ID normalizer\<close>

lemma newMap_fold:
  "fold (\<lambda>kv m. m(fst kv \<mapsto> snd kv)) kvs m0 k =
     (case map_of (rev kvs) k of Some v \<Rightarrow> Some v | None \<Rightarrow> m0 k)"
proof (induction kvs arbitrary: m0)
  case Nil
  then show ?case by simp
next
  case (Cons kv kvs)
  have "fold (\<lambda>kv m. m(fst kv \<mapsto> snd kv)) (kv # kvs) m0 k =
        fold (\<lambda>kv m. m(fst kv \<mapsto> snd kv)) kvs (m0(fst kv \<mapsto> snd kv)) k" by simp
  also have "\<dots> = (case map_of (rev kvs) k of Some v \<Rightarrow> Some v | None \<Rightarrow> (m0(fst kv \<mapsto> snd kv)) k)"
    by (rule Cons.IH)
  also have "\<dots> = (case map_of (rev (kv # kvs)) k of Some v \<Rightarrow> Some v | None \<Rightarrow> m0 k)"
    by (cases kv) (simp add: map_add_def split: option.splits)
  finally show ?case .
qed

lemma newMap_map_of: "newMap kvs = map_of (rev kvs)"
  by (rule ext) (simp add: newMap_def newMap_fold split: option.splits)

lemma newMap_lookup: "newMap kvs k = Some v \<Longrightarrow> (k, v) \<in> set kvs"
  using map_of_SomeD [of "rev kvs" k v] by (simp add: newMap_map_of)

lemma newMap_hit: "k \<in> fst ` set kvs \<Longrightarrow> newMap kvs k \<noteq> None"
  by (simp add: newMap_map_of map_of_eq_None_iff)

lemma materialsByLocalId_id:
  "materialsByLocalId ms i = Some m \<Longrightarrow> rm_id m = i \<and> m \<in> set ms"
  by (auto simp: materialsByLocalId_def dest!: newMap_lookup)

lemma materialsByWooId_mem:
  "materialsByWooId ms w = Some m \<Longrightarrow> rm_woocommerceId m = w \<and> m \<in> set ms"
  by (auto simp: materialsByWooId_def dest!: newMap_lookup)

lemma materialsByLocalId_hit:
  "m \<in> set ms \<Longrightarrow> \<exists>m'. materialsByLocalId ms (rm_id m) = Some m' \<and> rm_id m' = rm_id m"
proof -
  assume "m \<in> set ms"
  then have "rm_id m \<in> fst ` set (map (\<lambda>m. (rm_id m, m)) ms)" by force
  then have "materialsByLocalId ms (rm_id m) \<noteq> None"
    unfolding materialsByLocalId_def by (rule newMap_hit)
  then obtain m' where "materialsByLocalId ms (rm_id m) = Some m'" by auto
  then show ?thesis using materialsByLocalId_id by blast
qed

text \<open>
  C9. \<^verbatim>\<open>normalizeId\<close> is idempotent on every id, and an id that matches neither the
  local ids nor the WooCommerce ids of the loaded materials is returned unchanged.
\<close>

theorem normalizeId_idempotent:
  "normalizeId ms (normalizeId ms x) = normalizeId ms x \<and>
   (findMaterial ms x = None \<longrightarrow> normalizeId ms x = x)"
proof
  show "normalizeId ms (normalizeId ms x) = normalizeId ms x"
  proof (cases "materialsByLocalId ms x")
    case (Some byLocal)
    then have "rm_id byLocal = x" using materialsByLocalId_id by blast
    then show ?thesis using Some by (simp add: normalizeId_def)
  next
    case None
    show ?thesis
    proof (cases "materialsByWooId ms (Some x)")
      case inner: None
      then show ?thesis using None by (simp add: normalizeId_def)
    next
      case (Some byWoo)
      then have "byWoo \<in> set ms" using materialsByWooId_mem by blast
      then obtain m' where "materialsByLocalId ms (rm_id byWoo) = Some m'" "rm_id m' = rm_id byWoo"
        using materialsByLocalId_hit by blast
      then show ?thesis using None Some by (simp add: normalizeId_def)
    qed
  qed
next
  show "findMaterial ms x = None \<longrightarrow> normalizeId ms x = x"
    by (auto simp: findMaterial_def normalizeId_def split: option.splits)
qed

theorem normalizeId_idempotent_witness:
  "findMaterial [oak] 7 = None \<and>
   normalizeId [oak] (normalizeId [oak] 7) = normalizeId [oak] 7 \<and>
   normalizeId [oak] 7 = 7 \<and> normalizeId [oak] 50 = 1"
  using normalizeId_idempotent [of "[oak]" 7]
  by (simp add: findMaterial_def normalizeId_def materialsByLocalId_def materialsByWooId_def
        newMap_def oak_def)

section \<open>Properties of the fulfillment calculator\<close>

lemmas calc_defs = fulfillmentStatus_def fulfillmentPass_def sortedOrders_def fulfillmentStatuses_def
  buildStockMap_def seedMaterial_def fulfillOrder_def materialsNeededFor_def itemMappings_def
  addMapping_def findMaterial_def normalizeId_def normalizeVariationId_def materialsByLocalId_def
  materialsByWooId_def newMap_def displayName_def checkEntry_def commitEntry_def availableStock_def
  or0_def orNull_def truthy_def Let_def


















lemma check_snd:
  "\<forall>mm \<in> set (snd acc). 0 \<le> mm_available mm \<Longrightarrow>
   \<forall>mm \<in> set (snd (fold (checkEntry pool used) needed acc)). 0 \<le> mm_available mm"
proof (induction needed arbitrary: acc)
  case Nil
  then show ?case by simp
next
  case (Cons ke needed)
  have "\<forall>mm \<in> set (snd (checkEntry pool used ke acc)). 0 \<le> mm_available mm"
    using Cons.prems by (auto simp: checkEntry_def Let_def)
  then show ?case using Cons.IH by simp
qed

lemma fulfillOrder_clamped:
  "\<forall>mm \<in> set (missingMaterials (snd (fulfillOrder ms maps processed pool order used))). 0 \<le> mm_available mm"
  using check_snd [of "(True, [])" pool used "materialsNeededFor ms maps order"]
  by (simp add: fulfillOrder_def Let_def)

lemma loop_clamped:
  "\<forall>p \<in> set (snd (fulfillmentLoop ms maps processed pool orders used)).
     \<forall>mm \<in> set (missingMaterials (snd p)). 0 \<le> mm_available mm"
proof (induction orders arbitrary: used)
  case Nil
  then show ?case by simp
next
  case (Cons order orders)
  show ?case using Cons.IH fulfillOrder_clamped [of ms maps processed pool order used]
    by (simp add: Let_def)
qed

lemma status_clamped:
  assumes "fulfillmentStatus orders ms maps processed oid = Some r"
  shows "\<forall>mm \<in> set (missingMaterials r). 0 \<le> mm_available mm"
proof -
  from assms have "(oid, r) \<in> set (map (\<lambda>p. (wo_id (fst p), snd p)) (snd (fulfillmentPass orders ms maps processed)))"
    unfolding fulfillmentStatus_def by (rule newMap_lookup)
  then obtain p where "p \<in> set (snd (fulfillmentPass orders ms maps processed))" "snd p = r" by auto
  then show ?thesis using loop_clamped unfolding fulfillmentPass_def by blast
qed

text \<open>
  C4. Two unprocessed orders in an awaiting-fulfillment status, A created before B, each
  with one line item that needs 6 units of the one material, whose stock is 10: whichever
  way round the feed lists them, A is reported fulfillable with nothing missing and B is
  reported not fulfillable with one missing entry, needed 6 and available 4. In every
  response the availability of a missing entry is at least zero.
\<close>

theorem oldest_first:
  assumes mat: "rm_id material = m" "variations material = None" "rm_stockQuantity material = Some 10"
    and map: "mp_productId mapping = p" "mp_variationId mapping = None"
             "mp_materialProductId mapping = m" "mp_materialVariationId mapping = None"
    and A: "wo_line_items A = [ia]" "li_product_id ia = p" "\<not> truthy (li_variation_id ia)"
           "mp_quantityUsed mapping * li_quantity ia = 6" "wo_status A \<in> set fulfillmentStatuses"
           "wo_id A \<notin> set processed"
    and B: "wo_line_items B = [ib]" "li_product_id ib = p" "\<not> truthy (li_variation_id ib)"
           "mp_quantityUsed mapping * li_quantity ib = 6" "wo_status B \<in> set fulfillmentStatuses"
           "wo_id B \<notin> set processed"
    and AB: "wo_date_created A < wo_date_created B" "wo_id A \<noteq> wo_id B"
    and orders: "orders = [A, B] \<or> orders = [B, A]"
  shows "(fulfillmentStatus orders [material] [mapping] processed (wo_id A) =
            Some \<lparr>canFulfill = True, missingMaterials = [], isProcessed = False\<rparr> \<and>
          fulfillmentStatus orders [material] [mapping] processed (wo_id B) =
            Some \<lparr>canFulfill = False,
                  missingMaterials = [\<lparr>mm_materialId = m, mm_variationId = None,
                                       mm_materialName = rm_name material, mm_needed = 6,
                                       mm_available = 4\<rparr>],
                  isProcessed = False\<rparr>) \<and>
         (\<forall>os ms maps pr oid r.
            fulfillmentStatus os ms maps pr oid = Some r \<longrightarrow>
            (\<forall>mm \<in> set (missingMaterials r). 0 \<le> mm_available mm))"
proof -
  have sorted: "sortedOrders orders = [A, B]"
    using orders A(5) B(5) AB(1) by (auto simp: sortedOrders_def)
  have nA: "materialsNeededFor [material] [mapping] A =
      [((m, None), \<lparr>ne_needed = 6, ne_materialName = rm_name material, ne_materialId = m, ne_variationId = None\<rparr>)]"
    using mat map A
    by (simp add: materialsNeededFor_def itemMappings_def addMapping_def findMaterial_def
          normalizeId_def normalizeVariationId_def materialsByLocalId_def newMap_def displayName_def
          orNull_def truthy_def Let_def)
  have nB: "materialsNeededFor [material] [mapping] B =
      [((m, None), \<lparr>ne_needed = 6, ne_materialName = rm_name material, ne_materialId = m, ne_variationId = None\<rparr>)]"
    using mat map B
    by (simp add: materialsNeededFor_def itemMappings_def addMapping_def findMaterial_def
          normalizeId_def normalizeVariationId_def materialsByLocalId_def newMap_def displayName_def
          orNull_def truthy_def Let_def)
  have pool: "buildStockMap [material] = [(m, None) \<mapsto> 10]"
    using mat by (simp add: buildStockMap_def seedMaterial_def or0_def)
  have scenario: "fulfillmentStatus orders [material] [mapping] processed (wo_id A) =
            Some \<lparr>canFulfill = True, missingMaterials = [], isProcessed = False\<rparr> \<and>
          fulfillmentStatus orders [material] [mapping] processed (wo_id B) =
            Some \<lparr>canFulfill = False,
                  missingMaterials = [\<lparr>mm_materialId = m, mm_variationId = None,
                                       mm_materialName = rm_name material, mm_needed = 6,
                                       mm_available = 4\<rparr>],
                  isProcessed = False\<rparr>"
    using AB(2) A(6) B(6)
    by (simp add: fulfillmentStatus_def fulfillmentPass_def sorted pool fulfillOrder_def nA nB
          checkEntry_def commitEntry_def availableStock_def or0_def newMap_def Let_def)
  show ?thesis using scenario status_clamped by blast
qed

theorem oldest_first_witness:
  "fulfillmentStatus [orderB, orderA] [oak] [oakMapping] [] 501 =
     Some \<lparr>canFulfill = True, missingMaterials = [], isProcessed = False\<rparr> \<and>
   fulfillmentStatus [orderB, orderA] [oak] [oakMapping] [] 502 =
     Some \<lparr>canFulfill = False,
           missingMaterials = [\<lparr>mm_materialId = 1, mm_variationId = None, mm_materialName = ''Oak'',
                                mm_needed = 6, mm_available = 4\<rparr>],
           isProcessed = False\<rparr>"
proof -
  have "fulfillmentStatus [orderB, orderA] [oak] [oakMapping] [] (wo_id orderA) =
          Some \<lparr>canFulfill = True, missingMaterials = [], isProcessed = False\<rparr> \<and>
        fulfillmentStatus [orderB, orderA] [oak] [oakMapping] [] (wo_id orderB) =
          Some \<lparr>canFulfill = False,
                missingMaterials = [\<lparr>mm_materialId = 1, mm_variationId = None,
                                     mm_materialName = rm_name oak, mm_needed = 6, mm_available = 4\<rparr>],
                isProcessed = False\<rparr>"
    by (rule oldest_first [where p = 100 and ia = tableItem and ib = tableItem, THEN conjunct1])
       (simp_all add: oak_def oakMapping_def orderA_def orderB_def tableItem_def truthy_def
          fulfillmentStatuses_def)
  then show ?thesis by (simp add: orderA_def orderB_def oak_def)
qed

text \<open>
  C6. The calculator does not read \<^verbatim>\<open>manageStock\<close>: an order that needs one unit of a
  material with stock management off and stock 0 is reported not fulfillable, with that
  material listed as missing.
\<close>

theorem unmanaged_material_blocks_order:
  "\<not> rm_manageStock glue \<and>
   fulfillmentStatus [orderG] [glue] [glueMapping] [] 503 =
     Some \<lparr>canFulfill = False,
           missingMaterials = [\<lparr>mm_materialId = 2, mm_variationId = None, mm_materialName = ''Glue'',
                                mm_needed = 1, mm_available = 0\<rparr>],
           isProcessed = False\<rparr>"
  by (simp add: calc_defs glue_def glueMapping_def orderG_def)

section \<open>Properties of the order stock processor\<close>

lemmas storage_defs = createStockLedgerEntry_def updateLocalRawMaterialStock_def
  updateLocalRawMaterialVariationStock_def pgInteger_def pgIntegerOrNull_def varcharOrNull_def

lemmas proc_defs = processOrderStock_def markAndAnswer_def runItems_def processItem_def
  processMapping_def failedUpdate_def getProcessedOrder_def markOrderProcessed_def
  getLocalRawMaterials_def withVariations_def getMaterialMappingsForProduct_def findVariation_def
  newMap_def storage_defs or0_def orNull_def truthy_def Let_def

lemmas shop_defs = shop_def oakRow_def oakMapping_def poLine_def req500_def tableItem_def


lemma processedOrder_found:
  "getProcessedOrder db oid = Inr (Some p) \<Longrightarrow> pr_orderId p = oid \<and> p \<in> set (processedOrders db)"
  by (auto simp: getProcessedOrder_def find_Some_iff split: if_splits)


text \<open>
  A call for an order id that has a processed-order record is answered with the
  already-processed error and leaves the database as it was.
\<close>

lemma processOrderStock_marked:
  assumes "getProcessedOrder db (rq_orderId req) = Inr (Some p)"
  shows "processOrderStock db req =
           (Inl (BadRequest ''This order has already been processed for inventory''), db)"
  using assms by (simp add: processOrderStock_def)

lemma updateStock_frame:
  assumes "updateLocalRawMaterialStock db j s = Inr db1"
  shows "processedOrders db1 = processedOrders db \<and>
         materialProductMappings db1 = materialProductMappings db \<and>
         stockLedger db1 = stockLedger db \<and>
         rawMaterialVariations db1 = rawMaterialVariations db \<and>
         (i \<noteq> j \<longrightarrow> filter (\<lambda>m. rm_id m = i) (rawMaterials db1) =
                        filter (\<lambda>m. rm_id m = i) (rawMaterials db))"
proof -
  have "filter (\<lambda>m. rm_id m = i)
          (map (\<lambda>m. if rm_id m = j then m\<lparr>rm_stockQuantity := Some s\<rparr> else m) rows) =
        filter (\<lambda>m. rm_id m = i) rows" if "i \<noteq> j" for rows
    using that by (induction rows) auto
  then show ?thesis
    using assms by (auto simp: updateLocalRawMaterialStock_def split: if_splits)
qed

lemma updateVariationStock_frame:
  assumes "updateLocalRawMaterialVariationStock db j s = Inr db1"
  shows "processedOrders db1 = processedOrders db \<and>
         materialProductMappings db1 = materialProductMappings db \<and>
         stockLedger db1 = stockLedger db \<and>
         rawMaterials db1 = rawMaterials db"
  using assms by (auto simp: updateLocalRawMaterialVariationStock_def split: if_splits)

lemma createStockLedgerEntry_frame:
  assumes "createStockLedgerEntry db e = Inr db1"
  shows "processedOrders db1 = processedOrders db \<and>
         materialProductMappings db1 = materialProductMappings db \<and>
         stockLedger db1 = stockLedger db @ [e] \<and>
         rawMaterials db1 = rawMaterials db \<and>
         rawMaterialVariations db1 = rawMaterialVariations db"
  using assms by (auto simp: createStockLedgerEntry_def split: if_splits)

text \<open>
  A mapping whose material is not among the prefetched ones adds one entry to
  \<^verbatim>\<open>skippedItems\<close> and nothing else.
\<close>

lemma processMapping_unresolved:
  "pc_materialsMap st (mp_materialProductId mapping) = None \<Longrightarrow>
   processMapping oid num item mapping st =
     st\<lparr>pc_skippedItems := pc_skippedItems st @
          [\<lparr>sk_productId = li_product_id item, sk_variationId = li_variation_id item,
            sk_name = li_name item, sk_materialId = mp_materialProductId mapping,
            sk_materialVariationId = None, sk_materialName = None,
            sk_reason = ''Material product no longer exists in inventory''\<rparr>]\<rparr>"
  by (simp add: processMapping_def)

text \<open>
  A mapping whose material is among the prefetched ones writes to no row, ledger entry,
  result or failed update of another material.
\<close>

lemma processMapping_resolved:
  assumes m: "pc_materialsMap st (mp_materialProductId mapping) = Some material"
  shows "processedOrders (pc_db (processMapping oid num item mapping st)) = processedOrders (pc_db st) \<and>
         materialProductMappings (pc_db (processMapping oid num item mapping st)) =
           materialProductMappings (pc_db st) \<and>
         pc_thrown (processMapping oid num item mapping st) = pc_thrown st \<and>
         dom (pc_materialsMap (processMapping oid num item mapping st)) = dom (pc_materialsMap st) \<and>
         set (pc_skippedItems st) \<subseteq> set (pc_skippedItems (processMapping oid num item mapping st)) \<and>
         (i \<noteq> mp_materialProductId mapping \<longrightarrow>
            filter (\<lambda>m. rm_id m = i) (rawMaterials (pc_db (processMapping oid num item mapping st))) =
              filter (\<lambda>m. rm_id m = i) (rawMaterials (pc_db st)) \<and>
            filter (\<lambda>e. sl_materialProductId e = i)
                (stockLedger (pc_db (processMapping oid num item mapping st))) =
              filter (\<lambda>e. sl_materialProductId e = i) (stockLedger (pc_db st)) \<and>
            filter (\<lambda>r. dr_materialId r = i) (pc_results (processMapping oid num item mapping st)) =
              filter (\<lambda>r. dr_materialId r = i) (pc_results st) \<and>
            filter (\<lambda>f. fu_materialId f = i) (pc_failedUpdates (processMapping oid num item mapping st)) =
              filter (\<lambda>f. fu_materialId f = i) (pc_failedUpdates st))"
proof (cases "findVariation material (mp_materialVariationId mapping)")
  case None
  have d: "insert (mp_materialProductId mapping) (dom (pc_materialsMap st)) = dom (pc_materialsMap st)"
    using m by auto
  show ?thesis
    using m None d
    by (auto simp: processMapping_def Let_def failedUpdate_def split: sum.splits
          dest!: updateStock_frame [where i = i] createStockLedgerEntry_frame)
next
  case (Some iv)
  have d: "insert (mp_materialProductId mapping) (dom (pc_materialsMap st)) = dom (pc_materialsMap st)"
    using m by auto
  show ?thesis
    using m Some d
    by (auto simp: processMapping_def Let_def failedUpdate_def split: sum.splits
          dest!: updateVariationStock_frame createStockLedgerEntry_frame)
qed

lemma processMapping_frame:
  "processedOrders (pc_db (processMapping oid num item mapping st)) = processedOrders (pc_db st) \<and>
   materialProductMappings (pc_db (processMapping oid num item mapping st)) =
     materialProductMappings (pc_db st) \<and>
   pc_thrown (processMapping oid num item mapping st) = pc_thrown st"
proof (cases "pc_materialsMap st (mp_materialProductId mapping)")
  case None
  then show ?thesis by (simp add: processMapping_unresolved)
next
  case (Some material)
  then show ?thesis using processMapping_resolved [OF Some, of oid num item 0] by simp
qed

lemma fold_processMapping_frame:
  "processedOrders (pc_db (fold (processMapping oid num item) mappings st)) = processedOrders (pc_db st) \<and>
   materialProductMappings (pc_db (fold (processMapping oid num item) mappings st)) =
     materialProductMappings (pc_db st) \<and>
   pc_thrown (fold (processMapping oid num item) mappings st) = pc_thrown st"
  by (induction mappings arbitrary: st) (simp_all add: processMapping_frame)

lemma processItem_frame:
  "processedOrders (pc_db (processItem oid num item st)) = processedOrders (pc_db st) \<and>
   materialProductMappings (pc_db (processItem oid num item st)) = materialProductMappings (pc_db st)"
  by (simp add: processItem_def fold_processMapping_frame split: option.splits sum.splits)

lemma fold_processItem_frame:
  "processedOrders (pc_db (fold (processItem oid num) its st)) = processedOrders (pc_db st) \<and>
   materialProductMappings (pc_db (fold (processItem oid num) its st)) =
     materialProductMappings (pc_db st)"
  by (induction its arbitrary: st) (simp_all add: processItem_frame)








text \<open>
  Whatever a call answers, the rows of the materials other than those the loop wrote to
  are those of the end of the loop, and a call leaves order ids that are distinct in the
  processed-order table distinct.
\<close>

lemma processOrderStock_db:
  "snd (processOrderStock db req) = db \<or>
   snd (processOrderStock db req) = pc_db (runItems db req) \<or>
   snd (processOrderStock db req) =
     (pc_db (runItems db req))
        \<lparr>processedOrders := processedOrders (pc_db (runItems db req)) @
           [\<lparr>pr_orderId = rq_orderId req, pr_orderNumber = Some (rq_orderNumber req)\<rparr>]\<rparr>"
  by (auto simp: processOrderStock_def markAndAnswer_def markOrderProcessed_def Let_def
        split: sum.splits option.splits)

lemma markers_stay_distinct:
  assumes "distinct (map pr_orderId (processedOrders db))"
  shows "distinct (map pr_orderId (processedOrders (snd (processOrderStock db req))))"
proof -
  have po: "processedOrders (pc_db (runItems db req)) = processedOrders db"
    unfolding runItems_def using fold_processItem_frame by simp
  show ?thesis
    using assms po
    by (auto simp: processOrderStock_def markAndAnswer_def markOrderProcessed_def Let_def
          list_ex_iff split: sum.splits option.splits if_splits)
qed

text \<open>
  The limits of the columns, at the material of the example: a stock of \<open>2 ^ 31 - 1\<close> and
  of \<open>- 2 ^ 31\<close> is written, a stock beyond either is rejected; an order number of 50
  characters is accepted in the record of an order.
\<close>

lemma column_limits:
  "\<not> isl (updateLocalRawMaterialStock shop 1 2147483647) \<and>
   updateLocalRawMaterialStock shop 1 2147483648 = Inl Rejected \<and>
   \<not> isl (updateLocalRawMaterialStock shop 1 (- 2147483648)) \<and>
   updateLocalRawMaterialStock shop 1 (- 2147483649) = Inl Rejected \<and>
   \<not> isl (markOrderProcessed shop
            \<lparr>pr_orderId = 500, pr_orderNumber = Some (replicate 50 CHR ''0'')\<rparr>) \<and>
   markOrderProcessed shop \<lparr>pr_orderId = 500, pr_orderNumber = Some (replicate 51 CHR ''0'')\<rparr> =
     Inl Rejected"
  by (simp add: updateLocalRawMaterialStock_def markOrderProcessed_def pgInteger_def
        varcharOrNull_def shop_defs)

text \<open>
  A write that the database rejects inside the loop: the line item asks for
  2000000000 tables, the new stock is beyond the column, the mapping goes to
  \<^verbatim>\<open>failedUpdates\<close>, nothing is written, and the call is answered with success and
  leaves the record of the order.
\<close>

lemma rejected_write_is_a_failed_update:
  "processOrderStock shop (req500\<lparr>rq_lineItems := [tableItem\<lparr>li_quantity := 2000000000\<rparr>]\<rparr>) =
     (Inr \<lparr>rs_results = [], rs_unmappedItems = [], rs_skippedItems = [],
           rs_failedUpdates =
             [\<lparr>fu_productId = 100, fu_variationId = None, fu_name = ''Table'', fu_materialId = 1,
               fu_materialName = ''Oak'', fu_thrown = Rejected\<rparr>]\<rparr>,
      shop\<lparr>processedOrders := [\<lparr>pr_orderId = 500, pr_orderNumber = Some ''500''\<rparr>]\<rparr>)"
  by (simp add: proc_defs shop_defs)

text \<open>
  C1. The record of an order is inserted after the deductions and in no transaction with
  them. The request for order 500 carries an order number of 51 characters: the stock of
  the material is written from 10 to 4, the ledger insert and then the insert of the
  record are rejected, the call is answered with status 500 and leaves no record; the
  same request sent again is not refused, deducts again and leaves the stock at -2. And
  of two overlapping calls for order 500 that both make their check before either has
  inserted its record, both deduct: the stock is left at -2 with two ledger entries of
  order 500, the first call is answered with success and the second with status 500.
\<close>

theorem order_deducted_twice:
  "length (rq_orderNumber longReq) = 51 \<and>
   fst (processOrderStock shop longReq) = Inl ServerError \<and>
   map rm_stockQuantity (rawMaterials (snd (processOrderStock shop longReq))) = [Some 4] \<and>
   stockLedger (snd (processOrderStock shop longReq)) = [] \<and>
   processedOrders (snd (processOrderStock shop longReq)) = [] \<and>
   fst (processOrderStock (snd (processOrderStock shop longReq)) longReq) = Inl ServerError \<and>
   map rm_stockQuantity
     (rawMaterials (snd (processOrderStock (snd (processOrderStock shop longReq)) longReq))) =
     [Some (- 2)] \<and>
   processedOrders (snd (processOrderStock (snd (processOrderStock shop longReq)) longReq)) = [] \<and>
   map_option (\<lambda>r. (isl (fst (fst r)), snd (fst r))) (twoOverlappingCalls shop req500 req500) =
     Some (False, Inl ServerError) \<and>
   map_option (\<lambda>r. map rm_stockQuantity (rawMaterials (snd r)))
     (twoOverlappingCalls shop req500 req500) = Some [Some (- 2)] \<and>
   map_option (\<lambda>r. map (\<lambda>e. (sl_orderId e, sl_quantityChange e)) (stockLedger (snd r)))
     (twoOverlappingCalls shop req500 req500) = Some [(Some 500, - 6), (Some 500, - 6)] \<and>
   map_option (\<lambda>r. map pr_orderId (processedOrders (snd r)))
     (twoOverlappingCalls shop req500 req500) = Some [500]"
  by (simp add: twoOverlappingCalls_def proc_defs shop_defs longReq_def)














text \<open>
  C5. For a line item without a variation id, \<^verbatim>\<open>getMaterialMappingsForProduct\<close> returns
  every mapping of the product, here one whose \<^verbatim>\<open>variationId\<close> is 5, and the processor
  deducts through it; the filter of the fulfillment calculator returns no mapping for the
  same line item.
\<close>

theorem mappings_for_product_ignores_null:
  "getMaterialMappingsForProduct variationShop 100 None = Inr [variationMapping] \<and>
   mp_variationId variationMapping = Some 5 \<and>
   itemMappings (getMaterialMappings variationShop) tableItem = [] \<and>
   map rm_stockQuantity (rawMaterials (snd (processOrderStock variationShop req500))) = [Some 4]"
  by (simp add: proc_defs shop_defs variationShop_def variationMapping_def itemMappings_def
        getMaterialMappings_def)

text \<open>
  C2. The mapping names variation 7 of a material that has no active variation. The run
  deducts from the stock of the material and writes the ledger entry under the key of
  the variation: the ledger agreed with every stock before the call and disagrees with
  the stock of the material and of the variation after it.
\<close>

theorem order_deduction_breaks_ledger:
  "ledgerConsistent orphanShop \<and>
   map rm_stockQuantity (rawMaterials (snd (processOrderStock orphanShop req500))) = [Some 4] \<and>
   map rv_stockQuantity (rawMaterialVariations (snd (processOrderStock orphanShop req500))) = [Some 3] \<and>
   last (stockLedger (snd (processOrderStock orphanShop req500))) =
     \<lparr>sl_materialProductId = 1, sl_materialVariationId = Some 7, sl_orderId = Some 500,
      sl_orderNumber = Some ''500'', sl_quantityChange = - 6, sl_previousStock = Some 10,
      sl_newStock = Some 4, sl_reason = ''order''\<rparr> \<and>
   \<not> ledgerConsistent (snd (processOrderStock orphanShop req500))"
  by (simp add: proc_defs shop_defs orphanShop_def blackOak_def ledgerConsistent_def
        materialAgrees_def variationAgrees_def lastEntry_def)

section \<open>Properties of purchase order receiving\<close>

lemmas recv_defs = receiveItems_def validReceiveRequest_def receiveOne_def currentStock_def
  updateStock_def receivePurchaseOrderItems_def addReceived_def nextStatus_def getPurchaseOrder_def
  getLocalRawMaterial_def getLocalRawMaterialVariation_def storage_defs or0_def orNull_def
  truthy_def Let_def














text \<open>
  C7. Two receipts of 20 for the same line, 20 ordered and none received: each is clamped
  against the quantity received before the call, so the line ends at 40 received and the
  stock rises by 40.
\<close>

theorem duplicate_receipt_over_receives:
  "map pi_quantityOrdered (purchaseOrderItems shop) = [20] \<and>
   map pi_quantityReceived
     (purchaseOrderItems
        (snd (receiveItems shop 1 [\<lparr>ir_itemId = 1, ir_quantityReceived = 20\<rparr>,
                                   \<lparr>ir_itemId = 1, ir_quantityReceived = 20\<rparr>] 99))) = [40] \<and>
   map rm_stockQuantity
     (rawMaterials
        (snd (receiveItems shop 1 [\<lparr>ir_itemId = 1, ir_quantityReceived = 20\<rparr>,
                                   \<lparr>ir_itemId = 1, ir_quantityReceived = 20\<rparr>] 99))) = [Some 50]"
  by (simp add: recv_defs shop_defs)

section \<open>Properties of the stock ledger\<close>

text \<open>
  Every ledger entry written by the order stock processor and by purchase order
  receiving adds up, whatever the call answers.
\<close>

lemma processMapping_adds_up:
  assumes "list_all entryAddsUp (stockLedger (pc_db st))"
  shows "list_all entryAddsUp (stockLedger (pc_db (processMapping oid num item mapping st)))"
proof (cases "pc_materialsMap st (mp_materialProductId mapping)")
  case None
  then show ?thesis using assms by (simp add: processMapping_unresolved)
next
  case (Some material)
  show ?thesis
  proof (cases "findVariation material (mp_materialVariationId mapping)")
    case None
    show ?thesis
      using assms Some None
      by (auto simp: processMapping_def Let_def entryAddsUp_def or0_def split: sum.splits
            dest!: updateStock_frame [where i = 0] createStockLedgerEntry_frame)
  next
    case (Some iv)
    show ?thesis
      using assms \<open>pc_materialsMap st (mp_materialProductId mapping) = Some material\<close> Some
      by (auto simp: processMapping_def Let_def entryAddsUp_def or0_def split: sum.splits
            dest!: updateVariationStock_frame createStockLedgerEntry_frame)
  qed
qed

lemma fold_processMapping_adds_up:
  "list_all entryAddsUp (stockLedger (pc_db st)) \<Longrightarrow>
   list_all entryAddsUp (stockLedger (pc_db (fold (processMapping oid num item) mappings st)))"
  by (induction mappings arbitrary: st) (simp_all add: processMapping_adds_up)

lemma processItem_adds_up:
  "list_all entryAddsUp (stockLedger (pc_db st)) \<Longrightarrow>
   list_all entryAddsUp (stockLedger (pc_db (processItem oid num item st)))"
  by (simp add: processItem_def fold_processMapping_adds_up split: option.splits sum.splits)

lemma fold_processItem_adds_up:
  "list_all entryAddsUp (stockLedger (pc_db st)) \<Longrightarrow>
   list_all entryAddsUp (stockLedger (pc_db (fold (processItem oid num) its st)))"
  by (induction its arbitrary: st) (simp_all add: processItem_adds_up)

lemma processOrderStock_adds_up:
  assumes "list_all entryAddsUp (stockLedger db)"
  shows "list_all entryAddsUp (stockLedger (snd (processOrderStock db req)))"
proof -
  have "list_all entryAddsUp (stockLedger (pc_db (runItems db req)))"
    unfolding runItems_def using assms by (intro fold_processItem_adds_up) simp
  then show ?thesis using assms processOrderStock_db [of db req] by auto
qed

lemma updateStock_ledger:
  assumes "updateStock db item s = Inr db1"
  shows "stockLedger db1 = stockLedger db"
  using assms
  by (auto simp: updateStock_def updateLocalRawMaterialStock_def
        updateLocalRawMaterialVariationStock_def split: option.splits if_splits)

lemma receiveOne_adds_up:
  "list_all entryAddsUp (stockLedger (rc_db st)) \<Longrightarrow>
   list_all entryAddsUp (stockLedger (rc_db (receiveOne order receipt st)))"
  by (auto simp: receiveOne_def Let_def entryAddsUp_def or0_def split: option.splits sum.splits
        dest!: updateStock_ledger createStockLedgerEntry_frame)

lemma fold_receiveOne_adds_up:
  "list_all entryAddsUp (stockLedger (rc_db st)) \<Longrightarrow>
   list_all entryAddsUp (stockLedger (rc_db (fold (receiveOne order) receipts st)))"
  by (induction receipts arbitrary: st) (simp_all add: receiveOne_adds_up)

lemma addReceived_ledger: "stockLedger (snd (addReceived r acc)) = stockLedger (snd acc)"
  by (simp add: addReceived_def Let_def split: option.splits)

lemma fold_addReceived_ledger: "stockLedger (snd (fold addReceived rs acc)) = stockLedger (snd acc)"
  by (induction rs arbitrary: acc) (simp_all add: addReceived_ledger)

lemma receivePurchaseOrderItems_ledger:
  "stockLedger (snd (receivePurchaseOrderItems db i rs now)) = stockLedger db"
  using fold_addReceived_ledger [of rs "(None, db)"]
  by (simp add: receivePurchaseOrderItems_def Let_def split: option.splits sum.splits)

lemma receiveItems_adds_up:
  assumes "list_all entryAddsUp (stockLedger db)"
  shows "list_all entryAddsUp (stockLedger (snd (receiveItems db i items now)))"
proof -
  have a: "list_all entryAddsUp
             (stockLedger (rc_db (fold (receiveOne order) items
                \<lparr>rc_db = db, rc_results = [], rc_validatedReceipts = [], rc_thrown = None\<rparr>)))" for order
    using assms by (intro fold_receiveOne_adds_up) simp
  have b: "list_all entryAddsUp (stockLedger d)"
    if "receivePurchaseOrderItems
             (rc_db (fold (receiveOne order) items
                \<lparr>rc_db = db, rc_results = [], rc_validatedReceipts = [], rc_thrown = None\<rparr>)) i rs now =
          (r, d)" for order rs r d
    using a [of order] receivePurchaseOrderItems_ledger
            [of "rc_db (fold (receiveOne order) items
                \<lparr>rc_db = db, rc_results = [], rc_validatedReceipts = [], rc_thrown = None\<rparr>)" i rs now]
          that
    by simp
  show ?thesis
    using assms a b
    by (auto simp: receiveItems_def Let_def split: option.splits sum.splits prod.splits)
qed

end
